theory Spec2Isabelle
  imports Complex_Main
begin

section \<open>Values exchanged between the session, the search provider and the calculation service\<close>

text \<open>
  The Python code handles decoded JSON: dictionaries, lists, strings, numbers, booleans
  and \<open>None\<close>. A dictionary is an association list in insertion order; a decoded
  dictionary has no repeated key, and a lookup reads the first entry of a key.
  A Python float is the real number it denotes. The arithmetic of the price-return,
  dividend-yield and total-return endpoints is binary64: each operation rounds its
  result to the nearest double and overflows to an infinity. NaN and the sign of zero
  are outside the model. A text is a list of characters; the currency pattern of the
  extractor names ASCII characters only, so every other character is an ordinary one
  to it.
\<close>

datatype json =
    JNull
  | JBool bool
  | JNum real
  | JStr string
  | JArr "json list"
  | JObj "(string \<times> json) list"

datatype py_error =
    KeyError string
  | TypeError
  | AttributeError
  | ZeroDivisionError

section \<open>Binary64 arithmetic\<close>

text \<open>
  The result of a float operation: a finite double, or an infinity when the rounded
  result is beyond the largest double.
\<close>

datatype pyfloat = Finite real | PosInf | NegInf

definition round_half_even :: "real \<Rightarrow> int" where
  "round_half_even y =
     (let n = \<lfloor>y\<rfloor>; r = y - of_int n
      in if r < 1 / 2 then n else if 1 / 2 < r then n + 1 else if even n then n else n + 1)"

definition pow2 :: "int \<Rightarrow> real" where
  "pow2 k = (if 0 \<le> k then 2 ^ nat k else 1 / 2 ^ nat (- k))"

text \<open>\<open>expo x\<close>, for a positive \<open>x\<close>, is the exponent \<open>e\<close> with \<open>2^e \<le> x < 2^(e+1)\<close>.\<close>

function expo :: "real \<Rightarrow> int" where
  "expo x =
     (if x \<le> 0 then 0
      else if x < 1 then expo (2 * x) - 1
      else if 2 \<le> x then expo (x / 2) + 1
      else 0)"
  by pat_completeness auto
termination
proof (relation "measure (\<lambda>x. nat \<bar>\<lfloor>log 2 x\<rfloor>\<bar>)")
  show "wf (measure (\<lambda>x. nat \<bar>\<lfloor>log 2 x\<rfloor>\<bar>))"
    by simp
next
  fix x :: real
  assume a: "\<not> x \<le> 0" "x < 1"
  then have l: "log 2 x < 0"
    by simp
  then have f: "\<lfloor>log 2 x\<rfloor> \<le> - 1"
    by linarith
  have "log 2 (2 * x) = 1 + log 2 x"
    using a by (simp add: log_mult)
  then have "\<lfloor>log 2 (2 * x)\<rfloor> = 1 + \<lfloor>log 2 x\<rfloor>"
    by simp
  with f show "(2 * x, x) \<in> measure (\<lambda>x. nat \<bar>\<lfloor>log 2 x\<rfloor>\<bar>)"
    by simp
next
  fix x :: real
  assume a: "\<not> x \<le> 0" "\<not> x < 1" "2 \<le> x"
  then have "1 \<le> log 2 x"
    by (simp add: le_log_iff)
  then have f: "1 \<le> \<lfloor>log 2 x\<rfloor>"
    by linarith
  have "log 2 (x / 2) = log 2 x - 1"
    using a by (simp add: log_divide)
  then have "\<lfloor>log 2 (x / 2)\<rfloor> = \<lfloor>log 2 x\<rfloor> - 1"
    by simp
  with f show "(x / 2, x) \<in> measure (\<lambda>x. nat \<bar>\<lfloor>log 2 x\<rfloor>\<bar>)"
    by simp
qed

declare expo.simps [simp del]

text \<open>
  Rounding to binary64, to nearest and ties to even: doubles around \<open>x\<close> are
  \<open>2^(e-52)\<close> apart, where \<open>e\<close> is the exponent of \<open>x\<close> and at least -1022 (below, the
  doubles are subnormal and \<open>2^-1074\<close> apart); a result of magnitude \<open>2^1024\<close> is an
  overflow.
\<close>

definition round64 :: "real \<Rightarrow> pyfloat" where
  "round64 x =
     (if x = 0 then Finite 0
      else
        (let e = max (expo \<bar>x\<bar>) (- 1022);
             q = pow2 (e - 52);
             y = real_of_int (round_half_even (x / q)) * q
         in if pow2 1024 \<le> \<bar>y\<bar> then (if x < 0 then NegInf else PosInf) else Finite y))"

text \<open>
  The operations the endpoints use. The operands that come from a request are finite;
  a divisor is not zero where \<open>fdiv\<close> is called, and an infinity keeps or changes its
  sign with the sign of the divisor.
\<close>

definition fsub :: "real \<Rightarrow> real \<Rightarrow> pyfloat" where
  "fsub a b = round64 (a - b)"

definition fadd :: "real \<Rightarrow> real \<Rightarrow> pyfloat" where
  "fadd a b = round64 (a + b)"

fun fdiv :: "pyfloat \<Rightarrow> real \<Rightarrow> pyfloat" where
  "fdiv (Finite a) b = round64 (a / b)"
| "fdiv PosInf b = (if 0 < b then PosInf else NegInf)"
| "fdiv NegInf b = (if 0 < b then NegInf else PosInf)"

fun times100 :: "pyfloat \<Rightarrow> pyfloat" where
  "times100 (Finite a) = round64 (a * 100)"
| "times100 PosInf = PosInf"
| "times100 NegInf = NegInf"

section \<open>server.py: the calculation endpoints\<close>

record PriceReturnInput =
  initial_price :: real
  final_price :: real

definition calc_price_return :: "PriceReturnInput \<Rightarrow> py_error + (string \<times> pyfloat) list" where
  "calc_price_return data =
     (if initial_price data = 0 then Inl ZeroDivisionError
      else Inr [(''price_return'',
                 times100 (fdiv (fsub (final_price data) (initial_price data))
                             (initial_price data)))])"

record DividendInput =
  dividend_total :: real
  div_initial_price :: real

text \<open>The field \<open>div_initial_price\<close> is \<open>DividendInput.initial_price\<close> of the source.\<close>

definition calc_dividend_yield :: "DividendInput \<Rightarrow> py_error + (string \<times> pyfloat) list" where
  "calc_dividend_yield data =
     (if div_initial_price data = 0 then Inl ZeroDivisionError
      else Inr [(''dividend_yield'',
                 times100 (fdiv (Finite (dividend_total data)) (div_initial_price data)))])"

record TotalReturnInput =
  price_return :: real
  dividend_yield :: real

definition calc_total_return :: "TotalReturnInput \<Rightarrow> (string \<times> pyfloat) list" where
  "calc_total_return data =
     [(''total_return'', fadd (price_return data) (dividend_yield data))]"

subsection \<open>Formatting with two decimals\<close>

text \<open>
  \<open>fmt2 x\<close> is Python's \<open>f"{x:.2f}"\<close> on a real number: the value is rounded to
  hundredths, a tie going to the even neighbour, and a negative value keeps its sign.
\<close>

definition digit_char :: "nat \<Rightarrow> char" where
  "digit_char d = ''0123456789'' ! d"

fun show_nat :: "nat \<Rightarrow> string" where
  "show_nat n = (if n < 10 then [digit_char n] else show_nat (n div 10) @ [digit_char (n mod 10)])"

declare show_nat.simps [simp del]

definition fmt2 :: "real \<Rightarrow> string" where
  "fmt2 x =
     (let n = nat (round_half_even (\<bar>x\<bar> * 100))
      in (if x < 0 then ''-'' else []) @ show_nat (n div 100) @ ''.''
           @ [digit_char (n mod 100 div 10), digit_char (n mod 10)])"

subsection \<open>The comparison endpoint\<close>

record CompareInput =
  stock_a_name :: string
  stock_a_return :: real
  stock_b_name :: string
  stock_b_return :: real

text \<open>
  \<open>compare_winner\<close> is the local variable \<open>winner\<close> of \<open>compare\<close>. The difference of the
  two returns is taken on their real values: the rounded difference of two doubles has
  the sign of the exact one.
\<close>

definition compare_winner :: "CompareInput \<Rightarrow> string" where
  "compare_winner data =
     (let diff = stock_a_return data - stock_b_return data
      in if 0 < diff then stock_a_name data else stock_b_name data)"

definition compare :: "CompareInput \<Rightarrow> (string \<times> json) list" where
  "compare data =
     (let diff = stock_a_return data - stock_b_return data
      in [(''summary'',
           JStr (compare_winner data @ '' outperformed by '' @ fmt2 \<bar>diff\<bar>
                 @ ''%. Total returns were: ''
                 @ stock_a_name data @ '' = '' @ fmt2 (stock_a_return data) @ ''%, ''
                 @ stock_b_name data @ '' = '' @ fmt2 (stock_b_return data) @ ''%.''))])"

section \<open>StockAgent.py: Python operations on decoded values\<close>

text \<open>Iteration: a list gives its items, a string its characters, a dictionary its keys.\<close>

fun py_iter :: "json \<Rightarrow> py_error + json list" where
  "py_iter (JArr xs) = Inr xs"
| "py_iter (JStr s) = Inr (map (\<lambda>c. JStr [c]) s)"
| "py_iter (JObj kvs) = Inr (map (\<lambda>kv. JStr (fst kv)) kvs)"
| "py_iter JNull = Inl TypeError"
| "py_iter (JBool b) = Inl TypeError"
| "py_iter (JNum x) = Inl TypeError"

text \<open>Subscription with a string key, \<open>v[k]\<close>.\<close>

fun py_getitem :: "json \<Rightarrow> string \<Rightarrow> py_error + json" where
  "py_getitem (JObj kvs) k = (case map_of kvs k of None \<Rightarrow> Inl (KeyError k) | Some v \<Rightarrow> Inr v)"
| "py_getitem JNull k = Inl TypeError"
| "py_getitem (JBool b) k = Inl TypeError"
| "py_getitem (JNum x) k = Inl TypeError"
| "py_getitem (JStr s) k = Inl TypeError"
| "py_getitem (JArr xs) k = Inl TypeError"

text \<open>\<open>v.get(k, d)\<close>: only a dictionary has the method.\<close>

fun py_get :: "json \<Rightarrow> string \<Rightarrow> json \<Rightarrow> py_error + json" where
  "py_get (JObj kvs) k d = Inr (case map_of kvs k of None \<Rightarrow> d | Some v \<Rightarrow> v)"
| "py_get JNull k d = Inl AttributeError"
| "py_get (JBool b) k d = Inl AttributeError"
| "py_get (JNum x) k d = Inl AttributeError"
| "py_get (JStr s) k d = Inl AttributeError"
| "py_get (JArr xs) k d = Inl AttributeError"

text \<open>
  \<open>k in v\<close> for a string \<open>k\<close>: a key of a dictionary, a substring of a string, an item
  of a list.
\<close>

fun contains_str :: "string \<Rightarrow> string \<Rightarrow> bool" where
  "contains_str p [] = (p = [])"
| "contains_str p (c # s) = (take (length p) (c # s) = p \<or> contains_str p s)"

fun py_in :: "string \<Rightarrow> json \<Rightarrow> py_error + bool" where
  "py_in k (JObj kvs) = Inr (k \<in> set (map fst kvs))"
| "py_in k (JStr s) = Inr (contains_str k s)"
| "py_in k (JArr xs) = Inr (JStr k \<in> set xs)"
| "py_in k JNull = Inl TypeError"
| "py_in k (JBool b) = Inl TypeError"
| "py_in k (JNum x) = Inl TypeError"

text \<open>\<open>sep.join(texts)\<close>: every item has to be a string.\<close>

fun strs :: "json list \<Rightarrow> py_error + string list" where
  "strs [] = Inr []"
| "strs (JStr s # ts) = (case strs ts of Inl e \<Rightarrow> Inl e | Inr ss \<Rightarrow> Inr (s # ss))"
| "strs (t # ts) = Inl TypeError"

fun join :: "string \<Rightarrow> string list \<Rightarrow> string" where
  "join sep [] = []"
| "join sep [s] = s"
| "join sep (s # t # ts) = s @ sep @ join sep (t # ts)"

definition py_join :: "string \<Rightarrow> json list \<Rightarrow> py_error + string" where
  "py_join sep texts = (case strs texts of Inl e \<Rightarrow> Inl e | Inr ss \<Rightarrow> Inr (join sep ss))"

section \<open>StockAgent.py: the tool registry and the dispatcher\<close>

text \<open>
  The search provider and the calculation service are the world outside the program.
  \<open>serpapi_search\<close> and \<open>post_to_mcp\<close> wrap their request in \<open>try/except Exception\<close> and
  return the decoded answer or the dictionary \<open>{"error": message}\<close>, so both always
  return; what they answer, taken as a function of the request, is a parameter of the
  model.
\<close>

record world =
  serpapi_search :: "json \<Rightarrow> json"
  post_to_mcp :: "string \<Rightarrow> json \<Rightarrow> json"

text \<open>\<open>tools\<close>: the name of each declared tool with its required parameters.\<close>

definition tools :: "(string \<times> string list) list" where
  "tools =
     [(''search_stock_data'', [''query'']),
      (''calculate_price_return'', [''initial_price'', ''final_price'']),
      (''calculate_dividend_yield'', [''dividend_total'', ''initial_price'']),
      (''calculate_total_return'', [''price_return'', ''dividend_yield'']),
      (''compare_returns'',
         [''stock_a_name'', ''stock_a_return'', ''stock_b_name'', ''stock_b_return''])]"

definition search_stock_data :: "world \<Rightarrow> json \<Rightarrow> py_error + json" where
  "search_stock_data w a =
     (case py_getitem a ''query'' of
        Inl e \<Rightarrow> Inl e
      | Inr query \<Rightarrow>
          (case py_iter query of
             Inl e \<Rightarrow> Inl e
           | Inr qs \<Rightarrow> Inr (JArr (map (serpapi_search w) qs))))"

definition dispatch :: "world \<Rightarrow> (string \<times> (json \<Rightarrow> py_error + json)) list" where
  "dispatch w =
     [(''search_stock_data'', search_stock_data w),
      (''calculate_price_return'', \<lambda>a. Inr (post_to_mcp w ''price-return'' a)),
      (''calculate_dividend_yield'', \<lambda>a. Inr (post_to_mcp w ''dividend-yield'' a)),
      (''calculate_total_return'', \<lambda>a. Inr (post_to_mcp w ''total-return'' a)),
      (''compare_returns'', \<lambda>a. Inr (post_to_mcp w ''compare'' a))]"

definition tool_handler :: "world \<Rightarrow> string \<Rightarrow> json \<Rightarrow> py_error + json" where
  "tool_handler w name arguments =
     (case map_of (dispatch w) name of
        None \<Rightarrow> Inl (KeyError name)
      | Some handler \<Rightarrow> handler arguments)"

section \<open>StockAgent.py: extracting a number from a search result\<close>

subsection \<open>The currency pattern\<close>

text \<open>
  \<open>findall\<close> is \<open>re.findall\<close> for the pattern \<open>\$([0-9]+(?:\.[0-9]{1,2})?)\<close>: the group of
  every match, from left to right, the scan going on behind each match. \<open>amount t\<close>
  matches the group at the start of \<open>t\<close> and gives it with the rest of the text: all the
  digits there, then a point with two digits, or one, when they follow.
\<close>

definition is_digit :: "char \<Rightarrow> bool" where
  "is_digit c = (c \<in> set ''0123456789'')"

definition amount :: "string \<Rightarrow> (string \<times> string) option" where
  "amount t =
     (let ds = takeWhile is_digit t; r = dropWhile is_digit t
      in if ds = [] then None
         else (case r of
                 [] \<Rightarrow> Some (ds, r)
               | c # r' \<Rightarrow>
                   (let fs = take 2 (takeWhile is_digit r')
                    in if c = CHR ''.'' \<and> fs \<noteq> [] then Some (ds @ c # fs, drop (length fs) r')
                       else Some (ds, r))))"

lemma amount_rest_length: "amount t = Some (g, rest) \<Longrightarrow> length rest \<le> length t"
proof -
  assume a: "amount t = Some (g, rest)"
  have d: "length (dropWhile is_digit t) \<le> length t"
    by (rule length_dropWhile_le)
  have "rest = dropWhile is_digit t \<or> (\<exists>k. rest = drop (Suc k) (dropWhile is_digit t))"
    using a by (auto simp: amount_def Let_def split: if_splits list.splits)
  then show ?thesis
    using d by auto
qed

function findall :: "string \<Rightarrow> string list" where
  "findall [] = []"
| "findall (c # t) =
     (if c = CHR ''$'' then
        (case amount t of
           None \<Rightarrow> findall t
         | Some (g, rest) \<Rightarrow> g # findall rest)
      else findall t)"
  by pat_completeness auto
termination
  by (relation "measure length") (auto dest: amount_rest_length)

text \<open>\<open>float\<close> of a matched group: the digits before and behind the point.\<close>

definition digit_val :: "char \<Rightarrow> nat" where
  "digit_val c = of_char c - 48"

definition nat_of_digits :: "string \<Rightarrow> nat" where
  "nat_of_digits s = foldl (\<lambda>n c. 10 * n + digit_val c) 0 s"

definition float_of :: "string \<Rightarrow> real" where
  "float_of s =
     (let ip = takeWhile is_digit s; fp = drop (Suc (length ip)) s
      in real (nat_of_digits ip) + real (nat_of_digits fp) / 10 ^ length fp)"

subsection \<open>The extractor\<close>

text \<open>The loop over the entries, with the list \<open>texts\<close> it appends to.\<close>

fun collect_snippets :: "json list \<Rightarrow> json list \<Rightarrow> py_error + json list" where
  "collect_snippets [] texts = Inr texts"
| "collect_snippets (entry # es) texts =
     (case py_in ''snippet'' entry of
        Inl e \<Rightarrow> Inl e
      | Inr b \<Rightarrow>
          if b then
            (case py_getitem entry ''snippet'' of
               Inl e \<Rightarrow> Inl e
             | Inr s \<Rightarrow> collect_snippets es (texts @ [s]))
          else collect_snippets es texts)"

definition extract_price_or_dividend :: "json \<Rightarrow> py_error + real option" where
  "extract_price_or_dividend result_json =
     (case py_get result_json ''organic_results'' (JArr []) of
        Inl e \<Rightarrow> Inl e
      | Inr rs \<Rightarrow>
          (case py_iter rs of
             Inl e \<Rightarrow> Inl e
           | Inr entries \<Rightarrow>
               (case collect_snippets entries [] of
                  Inl e \<Rightarrow> Inl e
                | Inr texts \<Rightarrow>
                    (case py_join '' '' texts of
                       Inl e \<Rightarrow> Inl e
                     | Inr full_text \<Rightarrow>
                         (case findall full_text of
                            [] \<Rightarrow> Inr None
                          | m # ms \<Rightarrow> Inr (Some (float_of m)))))))"

section \<open>StockAgent.py: the session\<close>

text \<open>
  A proposed tool call, with its arguments as \<open>json.loads\<close> decoded them.
\<close>

record ToolCall =
  t_name :: string
  t_args :: json

record metrics =
  aapl_init :: "real option"
  aapl_final :: "real option"
  msft_init :: "real option"
  msft_final :: "real option"
  aapl_div :: "real option"
  msft_div :: "real option"

definition no_metrics :: metrics where
  "no_metrics =
     \<lparr>aapl_init = None, aapl_final = None, msft_init = None, msft_final = None,
      aapl_div = None, msft_div = None\<rparr>"

text \<open>The chain \<open>if i == 0: ... elif i == 5: ...\<close> of the inner loop.\<close>

definition assign :: "nat \<Rightarrow> real option \<Rightarrow> metrics \<Rightarrow> metrics" where
  "assign i val m =
     (if i = 0 then m\<lparr>aapl_init := val\<rparr>
      else if i = 1 then m\<lparr>aapl_final := val\<rparr>
      else if i = 2 then m\<lparr>msft_init := val\<rparr>
      else if i = 3 then m\<lparr>msft_final := val\<rparr>
      else if i = 4 then m\<lparr>aapl_div := val\<rparr>
      else if i = 5 then m\<lparr>msft_div := val\<rparr>
      else m)"

text \<open>\<open>for i, item in enumerate(result)\<close>, from index \<open>i\<close> on.\<close>

fun items_loop :: "nat \<Rightarrow> json list \<Rightarrow> metrics \<Rightarrow> py_error + metrics" where
  "items_loop i [] m = Inr m"
| "items_loop i (item # items) m =
     (case extract_price_or_dividend item of
        Inl e \<Rightarrow> Inl e
      | Inr val \<Rightarrow> items_loop (Suc i) items (assign i val m))"

text \<open>\<open>for idx, c in enumerate(calls)\<close>.\<close>

fun calls_loop :: "world \<Rightarrow> ToolCall list \<Rightarrow> metrics \<Rightarrow> py_error + metrics" where
  "calls_loop w [] m = Inr m"
| "calls_loop w (c # cs) m =
     (case tool_handler w (t_name c) (t_args c) of
        Inl e \<Rightarrow> Inl e
      | Inr result \<Rightarrow>
          if t_name c = ''search_stock_data'' then
            (case py_iter result of
               Inl e \<Rightarrow> Inl e
             | Inr items \<Rightarrow>
                 (case items_loop 0 items m of
                    Inl e \<Rightarrow> Inl e
                  | Inr m' \<Rightarrow> calls_loop w cs m'))
          else calls_loop w cs m)"

text \<open>The truth value of a slot: \<open>None\<close> and \<open>0.0\<close> are false.\<close>

definition truthy :: "real option \<Rightarrow> bool" where
  "truthy v = (case v of None \<Rightarrow> False | Some x \<Rightarrow> x \<noteq> 0)"

definition required :: "metrics \<Rightarrow> real option list" where
  "required m = [aapl_init m, aapl_final m, msft_init m, msft_final m, aapl_div m, msft_div m]"

definition py_val :: "real option \<Rightarrow> json" where
  "py_val v = (case v of None \<Rightarrow> JNull | Some x \<Rightarrow> JNum x)"

text \<open>\<open>tool_handler(name, args)[key]\<close>, a step of the calculation chain.\<close>

definition step :: "world \<Rightarrow> string \<Rightarrow> json \<Rightarrow> string \<Rightarrow> py_error + json" where
  "step w name args key =
     (case tool_handler w name args of Inl e \<Rightarrow> Inl e | Inr r \<Rightarrow> py_getitem r key)"

definition and_then :: "py_error + 'a \<Rightarrow> ('a \<Rightarrow> py_error + 'b) \<Rightarrow> py_error + 'b" where
  "and_then r f = (case r of Inl e \<Rightarrow> Inl e | Inr x \<Rightarrow> f x)"

definition total_return_of ::
    "world \<Rightarrow> real option \<Rightarrow> real option \<Rightarrow> real option \<Rightarrow> py_error + json" where
  "total_return_of w init final dividend =
     and_then (step w ''calculate_price_return''
                 (JObj [(''initial_price'', py_val init), (''final_price'', py_val final)])
                 ''price_return'') (\<lambda>price_ret.
     and_then (step w ''calculate_dividend_yield''
                 (JObj [(''dividend_total'', py_val dividend), (''initial_price'', py_val init)])
                 ''dividend_yield'') (\<lambda>div_yield.
     step w ''calculate_total_return''
       (JObj [(''price_return'', price_ret), (''dividend_yield'', div_yield)])
       ''total_return''))"

text \<open>
  The calculation chain: the three steps for AAPL, the three for MSFT, then the
  comparison. \<open>total_return_of\<close> is the block of three steps the source writes out once
  for each ticker.
\<close>

definition calculation_chain :: "world \<Rightarrow> metrics \<Rightarrow> py_error + json" where
  "calculation_chain w m =
     and_then (total_return_of w (aapl_init m) (aapl_final m) (aapl_div m)) (\<lambda>aapl_total_return.
     and_then (total_return_of w (msft_init m) (msft_final m) (msft_div m)) (\<lambda>msft_total_return.
     tool_handler w ''compare_returns''
       (JObj [(''stock_a_name'', JStr ''AAPL''), (''stock_a_return'', aapl_total_return),
              (''stock_b_name'', JStr ''MSFT''), (''stock_b_return'', msft_total_return)])))"

datatype outcome =
    NoToolCalls
  | MissingData
  | FinalComparison json
  | Success json
  | Raised py_error

text \<open>
  The main program from the list of proposed calls on. \<open>MissingData\<close> is the exit with
  status 1 behind the "Missing data" message, \<open>Raised\<close> an exception nothing catches.
\<close>

definition session :: "world \<Rightarrow> ToolCall list \<Rightarrow> outcome" where
  "session w calls =
     (if calls = [] then NoToolCalls
      else
        (case calls_loop w calls no_metrics of
           Inl e \<Rightarrow> Raised e
         | Inr m \<Rightarrow>
             if \<not> list_all truthy (required m) then MissingData
             else
               (case calculation_chain w m of
                  Inl e \<Rightarrow> Raised e
                | Inr comparison_result \<Rightarrow>
                    (case comparison_result of
                       JObj kvs \<Rightarrow>
                         (case map_of kvs ''result'' of
                            Some r \<Rightarrow> FinalComparison r
                          | None \<Rightarrow> Success comparison_result)
                     | _ \<Rightarrow> Success comparison_result))))"

section \<open>Notions the properties are stated with\<close>

subsection \<open>Search payloads of the documented shape\<close>







subsection \<open>The first currency amount of a text\<close>

text \<open>
  \<open>lexeme t\<close> is the amount that starts \<open>t\<close>: its leading digits, then a point with one or
  two digits when the text goes on so. \<open>first_currency s\<close> is the amount behind the first
  dollar sign of \<open>s\<close> that a digit follows.
\<close>

definition fraction :: "string \<Rightarrow> string" where
  "fraction r =
     (case r of
        c # f # r' \<Rightarrow>
          if c = CHR ''.'' \<and> is_digit f then
            c # f # (case r' of [] \<Rightarrow> [] | f' # r'' \<Rightarrow> if is_digit f' then [f'] else [])
          else []
      | _ \<Rightarrow> [])"

definition lexeme :: "string \<Rightarrow> string" where
  "lexeme t = takeWhile is_digit t @ fraction (dropWhile is_digit t)"

fun first_currency :: "string \<Rightarrow> string option" where
  "first_currency [] = None"
| "first_currency (c # t) =
     (if c = CHR ''$'' \<and> (case t of [] \<Rightarrow> False | d # t' \<Rightarrow> is_digit d) then Some (lexeme t)
      else first_currency t)"


subsection \<open>Positions and overwriting\<close>

definition at_position :: "'a list \<Rightarrow> nat \<Rightarrow> 'a \<Rightarrow> 'a" where
  "at_position vals k d = (if k < length vals then vals ! k else d)"

definition placed :: "nat \<Rightarrow> 'a list \<Rightarrow> nat \<Rightarrow> 'a \<Rightarrow> 'a" where
  "placed i vals k d = (if i \<le> k \<and> k < i + length vals then vals ! (k - i) else d)"

text \<open>
  What a run of the session extracted: for each search call, in order, the value of each
  item of its result list. In a run that raises nothing every extraction returns, and
  \<open>observed\<close> is its value.
\<close>

definition observed :: "json \<Rightarrow> real option" where
  "observed item = (case extract_price_or_dividend item of Inl e \<Rightarrow> None | Inr v \<Rightarrow> v)"

definition search_results :: "world \<Rightarrow> ToolCall \<Rightarrow> json list" where
  "search_results w c =
     (case tool_handler w (t_name c) (t_args c) of
        Inl e \<Rightarrow> []
      | Inr result \<Rightarrow> (case py_iter result of Inl e \<Rightarrow> [] | Inr items \<Rightarrow> items))"

definition observations :: "world \<Rightarrow> ToolCall list \<Rightarrow> real option list list" where
  "observations w calls =
     map (\<lambda>c. map observed (search_results w c))
       (filter (\<lambda>c. t_name c = ''search_stock_data'') calls)"

text \<open>
  \<open>latest k vss d\<close>: position \<open>k\<close> of the last list of \<open>vss\<close> that has such a position, and
  \<open>d\<close> when none has.
\<close>

definition latest :: "nat \<Rightarrow> 'a list list \<Rightarrow> 'a \<Rightarrow> 'a" where
  "latest k vss d =
     (let ws = filter (\<lambda>vs. k < length vs) vss in if ws = [] then d else last ws ! k)"

subsection \<open>Results in the normal range\<close>

text \<open>
  \<open>normal x\<close>: the exact result \<open>x\<close> of an operation is zero or at least \<open>2^-1022\<close> in
  magnitude, so that rounding it does not underflow.
\<close>

definition normal :: "real \<Rightarrow> bool" where
  "normal x = (x = 0 \<or> pow2 (- 1022) \<le> \<bar>x\<bar>)"

subsection \<open>Two worlds to run the session in\<close>

text \<open>
  \<open>local_service\<close> is \<open>post_to_mcp\<close> when the server of server.py answers at \<open>MCP_BASE\<close>:
  the decoded response of the endpoint, or the error dictionary made from the HTTP
  status when the endpoint raises (500), the request is invalid (422) or the path is
  unknown (404). The validation of a request is FastAPI's and not part of server.py:
  here a request is valid when its fields are numbers and strings as the endpoint
  declares them.
\<close>

definition error_payload :: "string \<Rightarrow> json" where
  "error_payload msg = JObj [(''error'', JStr msg)]"

definition number_field :: "json \<Rightarrow> string \<Rightarrow> real option" where
  "number_field body k =
     (case body of
        JObj kvs \<Rightarrow> (case map_of kvs k of Some (JNum x) \<Rightarrow> Some x | _ \<Rightarrow> None)
      | _ \<Rightarrow> None)"

definition text_field :: "json \<Rightarrow> string \<Rightarrow> string option" where
  "text_field body k =
     (case body of
        JObj kvs \<Rightarrow> (case map_of kvs k of Some (JStr x) \<Rightarrow> Some x | _ \<Rightarrow> None)
      | _ \<Rightarrow> None)"

definition invalid_request :: json where
  "invalid_request = error_payload ''422 Client Error: Unprocessable Entity''"

text \<open>
  A response is encoded as JSON text, which has no infinity: a result with one fails
  in the server like an exception of the endpoint.
\<close>

fun finite_fields :: "(string \<times> pyfloat) list \<Rightarrow> (string \<times> json) list option" where
  "finite_fields [] = Some []"
| "finite_fields ((k, Finite x) # kvs) =
     (case finite_fields kvs of None \<Rightarrow> None | Some fs \<Rightarrow> Some ((k, JNum x) # fs))"
| "finite_fields ((k, PosInf) # kvs) = None"
| "finite_fields ((k, NegInf) # kvs) = None"

definition response :: "py_error + (string \<times> pyfloat) list \<Rightarrow> json" where
  "response r =
     (case r of
        Inl e \<Rightarrow> error_payload ''500 Server Error: Internal Server Error''
      | Inr kvs \<Rightarrow>
          (case finite_fields kvs of
             None \<Rightarrow> error_payload ''500 Server Error: Internal Server Error''
           | Some fs \<Rightarrow> JObj fs))"

definition local_service :: "string \<Rightarrow> json \<Rightarrow> json" where
  "local_service endpoint body =
     (if endpoint = ''price-return'' then
        (case (number_field body ''initial_price'', number_field body ''final_price'') of
           (Some i, Some f) \<Rightarrow> response (calc_price_return \<lparr>initial_price = i, final_price = f\<rparr>)
         | _ \<Rightarrow> invalid_request)
      else if endpoint = ''dividend-yield'' then
        (case (number_field body ''dividend_total'', number_field body ''initial_price'') of
           (Some d, Some i) \<Rightarrow>
             response (calc_dividend_yield \<lparr>dividend_total = d, div_initial_price = i\<rparr>)
         | _ \<Rightarrow> invalid_request)
      else if endpoint = ''total-return'' then
        (case (number_field body ''price_return'', number_field body ''dividend_yield'') of
           (Some p, Some d) \<Rightarrow>
             response (Inr (calc_total_return \<lparr>price_return = p, dividend_yield = d\<rparr>))
         | _ \<Rightarrow> invalid_request)
      else if endpoint = ''compare'' then
        (case (text_field body ''stock_a_name'', number_field body ''stock_a_return'',
               text_field body ''stock_b_name'', number_field body ''stock_b_return'') of
           (Some a, Some x, Some b, Some y) \<Rightarrow>
             JObj (compare \<lparr>stock_a_name = a, stock_a_return = x,
                            stock_b_name = b, stock_b_return = y\<rparr>)
         | _ \<Rightarrow> invalid_request)
      else error_payload ''404 Client Error: Not Found'')"

text \<open>
  \<open>quoting\<close>: a search provider whose one result quotes the query as its snippet, with
  the local calculation service. \<open>offline\<close>: every request fails.
\<close>

definition quoting :: world where
  "quoting =
     \<lparr>serpapi_search = (\<lambda>q. JObj [(''organic_results'', JArr [JObj [(''snippet'', q)]])]),
      post_to_mcp = local_service\<rparr>"

definition offline :: world where
  "offline =
     \<lparr>serpapi_search = (\<lambda>q. error_payload ''connection refused''),
      post_to_mcp = (\<lambda>endpoint data. error_payload ''connection refused'')\<rparr>"

definition search_for :: "string list \<Rightarrow> ToolCall" where
  "search_for qs =
     \<lparr>t_name = ''search_stock_data'', t_args = JObj [(''query'', JArr (map JStr qs))]\<rparr>"

section \<open>Verified properties\<close>

subsection \<open>Evaluation\<close>

lemmas run_defs =
  tool_handler_def dispatch_def search_stock_data_def extract_price_or_dividend_def
  py_join_def amount_def is_digit_def float_of_def nat_of_digits_def digit_val_def assign_def
  no_metrics_def search_for_def quoting_def session_def required_def truthy_def

lemmas chain_defs =
  calculation_chain_def total_return_of_def step_def and_then_def py_val_def
  local_service_def number_field_def text_field_def response_def error_payload_def
  invalid_request_def calc_price_return_def calc_dividend_yield_def calc_total_return_def
  compare_def compare_winner_def fmt2_def round_half_even_def show_nat.simps digit_char_def
  fsub_def fadd_def round64_def pow2_def expo.simps


text \<open>
  The scenario of the specification: AAPL from 100 to 120 with a dividend of 2, MSFT from
  200 to 210 with a dividend of 3.
\<close>

lemma session_end_to_end:
  "session quoting [search_for [''$100'', ''$120'', ''$200'', ''$210'', ''$2'', ''$3'']]
     = Success (JObj [(''summary'',
         JStr ''AAPL outperformed by 15.50%. Total returns were: AAPL = 22.00%, MSFT = 6.50%.'')])"
  by (simp add: run_defs chain_defs)

subsection \<open>The slots of one search call\<close>

lemma placed_Nil: "placed i [] k d = d"
  by (auto simp: placed_def)

lemma placed_Cons: "placed i (v # vs) k d = placed (Suc i) vs k (if k = i then v else d)"
  by (auto simp: placed_def nth_Cons')

lemma items_loop_from:
  "map extract_price_or_dividend items = map Inr vals \<Longrightarrow>
   items_loop i items m =
     Inr \<lparr>aapl_init = placed i vals 0 (aapl_init m), aapl_final = placed i vals 1 (aapl_final m),
          msft_init = placed i vals 2 (msft_init m), msft_final = placed i vals 3 (msft_final m),
          aapl_div = placed i vals 4 (aapl_div m), msft_div = placed i vals 5 (msft_div m)\<rparr>"
proof (induction items arbitrary: i m vals)
  case Nil
  then show ?case by (simp add: placed_Nil)
next
  case (Cons item items)
  then obtain v vs where vals: "vals = v # vs" and v: "extract_price_or_dividend item = Inr v"
    and vs: "map extract_price_or_dividend items = map Inr vs"
    by (cases vals) auto
  show ?case
    unfolding vals placed_Cons
    by (simp add: v Cons.IH [OF vs] assign_def)
qed

lemma placed_0: "placed 0 vals k d = at_position vals k d"
  by (simp add: placed_def at_position_def)

subsection \<open>Several search calls\<close>

lemma latest_Nil: "latest k [] d = d"
  by (simp add: latest_def)

lemma latest_Cons: "latest k (vs # vss) d = latest k vss (at_position vs k d)"
  by (simp add: latest_def at_position_def Let_def)

lemma items_loop_extracts:
  "items_loop i items m = Inr m1 \<Longrightarrow>
   map extract_price_or_dividend items = map Inr (map observed items)"
proof (induction items arbitrary: i m)
  case Nil
  then show ?case by simp
next
  case (Cons item items)
  from Cons.prems obtain v where v: "extract_price_or_dividend item = Inr v"
    and rest: "items_loop (Suc i) items (assign i v m) = Inr m1"
    by (auto split: sum.splits)
  show ?case
    using Cons.IH [OF rest] by (simp add: v observed_def)
qed

lemma items_loop_result:
  assumes "items_loop 0 items m = Inr m1"
  shows "m1 = \<lparr>aapl_init = at_position (map observed items) 0 (aapl_init m),
            aapl_final = at_position (map observed items) 1 (aapl_final m),
            msft_init = at_position (map observed items) 2 (msft_init m),
            msft_final = at_position (map observed items) 3 (msft_final m),
            aapl_div = at_position (map observed items) 4 (aapl_div m),
            msft_div = at_position (map observed items) 5 (msft_div m)\<rparr>"
  using assms items_loop_from [OF items_loop_extracts [OF assms], of 0 m]
  by (simp add: placed_0)

subsection \<open>The extractor on search payloads\<close>













subsection \<open>The first currency amount\<close>

lemma first_currency_None_iff:
  "first_currency s = None \<longleftrightarrow> \<not> (\<exists>u d v. s = u @ CHR ''$'' # d # v \<and> is_digit d)"
proof (induction s)
  case Nil
  then show ?case by simp
next
  case (Cons c t)
  show ?case
  proof (cases "c = CHR ''$'' \<and> (case t of [] \<Rightarrow> False | d # t' \<Rightarrow> is_digit d)")
    case True
    then obtain d t' where "t = d # t'" "is_digit d" "c = CHR ''$''"
      by (auto split: list.splits)
    then have "c # t = [] @ CHR ''$'' # d # t' \<and> is_digit d"
      by simp
    then have "\<exists>u d v. c # t = u @ CHR ''$'' # d # v \<and> is_digit d"
      by blast
    with True show ?thesis by simp
  next
    case False
    have fc: "first_currency (c # t) = first_currency t"
      using False by auto
    have shift: "(\<exists>u d v. c # t = u @ CHR ''$'' # d # v \<and> is_digit d)
        \<longleftrightarrow> (\<exists>u d v. t = u @ CHR ''$'' # d # v \<and> is_digit d)"
    proof
      assume "\<exists>u d v. c # t = u @ CHR ''$'' # d # v \<and> is_digit d"
      then obtain u d v where e: "c # t = u @ CHR ''$'' # d # v" and d: "is_digit d"
        by blast
      show "\<exists>u d v. t = u @ CHR ''$'' # d # v \<and> is_digit d"
      proof (cases u)
        case Nil
        with e d False show ?thesis by simp
      next
        case (Cons c' u')
        with e have "t = u' @ CHR ''$'' # d # v" by simp
        with d show ?thesis by blast
      qed
    next
      assume "\<exists>u d v. t = u @ CHR ''$'' # d # v \<and> is_digit d"
      then obtain u d v where "t = u @ CHR ''$'' # d # v" and d: "is_digit d"
        by blast
      then have "c # t = (c # u) @ CHR ''$'' # d # v" by simp
      with d show "\<exists>u d v. c # t = u @ CHR ''$'' # d # v \<and> is_digit d" by blast
    qed
    show ?thesis
      by (simp only: fc Cons.IH shift)
  qed
qed

lemma fraction_prefix: "\<exists>v. r = fraction r @ v"
  by (auto simp: fraction_def split: list.splits)

lemma lexeme_prefix: "\<exists>v. t = lexeme t @ v"
proof -
  obtain v where "dropWhile is_digit t = fraction (dropWhile is_digit t) @ v"
    using fraction_prefix by blast
  then have "t = lexeme t @ v"
    unfolding lexeme_def
    by (metis append.assoc takeWhile_dropWhile_id)
  then show ?thesis ..
qed

lemma first_currency_Some:
  "first_currency s = Some m \<Longrightarrow>
   \<exists>u v. s = u @ CHR ''$'' # m @ v \<and> first_currency (u @ [CHR ''$'']) = None \<and> m = lexeme (m @ v)"
proof (induction s)
  case Nil
  then show ?case by simp
next
  case (Cons c t)
  show ?case
  proof (cases "c = CHR ''$'' \<and> (case t of [] \<Rightarrow> False | d # t' \<Rightarrow> is_digit d)")
    case True
    with Cons.prems have m: "m = lexeme t" by simp
    obtain v where v: "t = lexeme t @ v" using lexeme_prefix by blast
    have "c # t = [] @ CHR ''$'' # m @ v" using True m v by simp
    moreover have "first_currency ([] @ [CHR ''$'']) = None" by simp
    moreover have "m = lexeme (m @ v)" using m v by simp
    ultimately show ?thesis by blast
  next
    case False
    with Cons.prems have "first_currency t = Some m" by simp
    from Cons.IH [OF this] obtain u v where t: "t = u @ CHR ''$'' # m @ v"
      and n: "first_currency (u @ [CHR ''$'']) = None" and l: "m = lexeme (m @ v)"
      by blast
    have "c # t = (c # u) @ CHR ''$'' # m @ v" using t by simp
    moreover have "first_currency ((c # u) @ [CHR ''$'']) = None"
    proof (cases u)
      case Nil
      then show ?thesis by (simp add: is_digit_def)
    next
      case (Cons c' u')
      with False t n show ?thesis by simp
    qed
    ultimately show ?thesis using l by blast
  qed
qed

lemma lexeme_shape:
  "\<exists>ds fs. lexeme t = ds @ fs \<and> list_all is_digit ds \<and>
      (fs = [] \<or> (\<exists>f. is_digit f \<and> fs = [CHR ''.'', f])
               \<or> (\<exists>f f'. is_digit f \<and> is_digit f' \<and> fs = [CHR ''.'', f, f']))"
proof -
  let ?fs = "fraction (dropWhile is_digit t)"
  have "list_all is_digit (takeWhile is_digit t)"
    by (simp add: list_all_iff) (meson set_takeWhileD)
  moreover have "?fs = [] \<or> (\<exists>f. is_digit f \<and> ?fs = [CHR ''.'', f])
               \<or> (\<exists>f f'. is_digit f \<and> is_digit f' \<and> ?fs = [CHR ''.'', f, f'])"
    by (auto simp: fraction_def split: list.splits)
  ultimately show ?thesis
    unfolding lexeme_def by blast
qed






subsection \<open>The completeness gate\<close>

lemma gate_passes_iff:
  "list_all truthy (required m) \<longleftrightarrow>
     (\<exists>a b c d e f. m = \<lparr>aapl_init = Some a, aapl_final = Some b, msft_init = Some c,
                          msft_final = Some d, aapl_div = Some e, msft_div = Some f\<rparr>
        \<and> a \<noteq> 0 \<and> b \<noteq> 0 \<and> c \<noteq> 0 \<and> d \<noteq> 0 \<and> e \<noteq> 0 \<and> f \<noteq> 0)"
  by (cases m) (auto simp: required_def truthy_def split: option.splits)

lemma session_missing_data_iff:
  assumes "calls \<noteq> []" and "calls_loop w calls no_metrics = Inr m"
  shows "session w calls = MissingData \<longleftrightarrow> \<not> list_all truthy (required m)"
  using assms
  by (auto simp: session_def split: sum.splits json.splits option.splits)

subsection \<open>Two-decimal formatting\<close>






lemma round_half_even_near: "\<bar>real_of_int (round_half_even y) - y\<bar> \<le> 1 / 2"
  unfolding round_half_even_def Let_def
  by (auto simp: abs_le_iff)





subsection \<open>Binary64 rounding\<close>

lemma pow2_powr: "pow2 k = 2 powr real_of_int k"
proof (cases "0 \<le> k")
  case True
  then have "real_of_int k = real (nat k)"
    by simp
  then have "2 powr real_of_int k = (2::real) ^ nat k"
    by (simp only: powr_realpow [of 2 "nat k"])
  then show ?thesis
    using True by (simp add: pow2_def)
next
  case False
  then have "real_of_int k = - real (nat (- k))"
    by simp
  then have "2 powr real_of_int k = inverse ((2::real) powr real (nat (- k)))"
    by (simp only: powr_minus)
  also have "\<dots> = 1 / (2::real) ^ nat (- k)"
    by (simp add: powr_realpow inverse_eq_divide)
  finally show ?thesis
    using False by (simp add: pow2_def)
qed

lemma pow2_pos: "0 < pow2 k"
  by (simp add: pow2_powr)

lemma pow2_add: "pow2 (a + b) = pow2 a * pow2 b"
  by (simp add: pow2_powr powr_add)

lemma pow2_less: "pow2 a < pow2 b \<Longrightarrow> a < b"
  by (simp add: pow2_powr)

lemma expo_bounds: "0 < x \<Longrightarrow> pow2 (expo x) \<le> x \<and> x < pow2 (expo x + 1)"
proof (induction x rule: expo.induct)
  case (1 x)
  show ?case
  proof (cases "x < 1")
    case True
    with "1.prems" have e: "expo x = expo (2 * x) - 1"
      by (simp add: expo.simps [of x])
    from "1.IH"(1) "1.prems" True
    have ih: "pow2 (expo (2 * x)) \<le> 2 * x \<and> 2 * x < pow2 (expo (2 * x) + 1)"
      by simp
    have a: "pow2 (expo (2 * x)) = pow2 (expo (2 * x) - 1) * 2"
      using pow2_add [of "expo (2 * x) - 1" 1] by (simp add: pow2_def)
    have b: "pow2 (expo (2 * x) + 1) = pow2 (expo (2 * x)) * 2"
      using pow2_add [of "expo (2 * x)" 1] by (simp add: pow2_def)
    from ih show ?thesis
      unfolding e using a b by simp
  next
    case False
    show ?thesis
    proof (cases "2 \<le> x")
      case True
      with "1.prems" False have e: "expo x = expo (x / 2) + 1"
        by (simp add: expo.simps [of x])
      from "1.IH"(2) "1.prems" False True
      have ih: "pow2 (expo (x / 2)) \<le> x / 2 \<and> x / 2 < pow2 (expo (x / 2) + 1)"
        by simp
      have a: "pow2 (expo (x / 2) + 1) = pow2 (expo (x / 2)) * 2"
        using pow2_add [of "expo (x / 2)" 1] by (simp add: pow2_def)
      have b: "pow2 (expo (x / 2) + 1 + 1) = pow2 (expo (x / 2) + 1) * 2"
        using pow2_add [of "expo (x / 2) + 1" 1] by (simp add: pow2_def)
      from ih show ?thesis
        unfolding e using a b by simp
    next
      case True2: False
      with "1.prems" False have e: "expo x = 0"
        by (simp add: expo.simps [of x])
      from False True2 show ?thesis
        unfolding e by (simp add: pow2_def)
    qed
  qed
qed

lemma round64_rel:
  assumes "normal x" and "round64 x = Finite y"
  shows "\<bar>y - x\<bar> \<le> \<bar>x\<bar> / 2 ^ 53"
proof (cases "x = 0")
  case True
  with assms show ?thesis by (simp add: round64_def)
next
  case False
  with assms have big: "pow2 (- 1022) \<le> \<bar>x\<bar>"
    by (simp add: normal_def)
  define e where "e = expo \<bar>x\<bar>"
  define q where "q = pow2 (e - 52)"
  have pos: "0 < \<bar>x\<bar>" using False by simp
  from expo_bounds [OF pos] have lo: "pow2 e \<le> \<bar>x\<bar>" and hi: "\<bar>x\<bar> < pow2 (e + 1)"
    by (simp_all add: e_def)
  from big hi have "pow2 (- 1022) < pow2 (e + 1)"
    by simp
  then have "- 1022 < e + 1"
    by (rule pow2_less)
  then have m: "max e (- 1022) = e"
    by simp
  have q: "0 < q"
    by (simp add: q_def pow2_pos)
  have y: "y = real_of_int (round_half_even (x / q)) * q"
    using assms(2) False m
    by (simp add: round64_def Let_def e_def [symmetric] q_def [symmetric] split: if_splits)
  have "\<bar>y - x\<bar> = \<bar>real_of_int (round_half_even (x / q)) - x / q\<bar> * q"
  proof -
    have "y - x = (real_of_int (round_half_even (x / q)) - x / q) * q"
      using q by (simp add: y field_simps)
    then show ?thesis
      using q by (simp add: abs_mult)
  qed
  also have "\<dots> \<le> 1 / 2 * q"
    using round_half_even_near [of "x / q"] q by (intro mult_right_mono) simp_all
  also have "\<dots> = pow2 e / 2 ^ 53"
  proof -
    have "pow2 e = pow2 (e - 52) * pow2 52"
      using pow2_add [of "e - 52" 52] by simp
    then show ?thesis
      by (simp add: q_def pow2_def)
  qed
  also have "\<dots> \<le> \<bar>x\<bar> / 2 ^ 53"
    using lo by (simp add: divide_right_mono)
  finally show ?thesis .
qed

lemma rel_step:
  assumes "\<bar>a - b\<bar> \<le> \<epsilon> * \<bar>b\<bar>" and "\<bar>b - c\<bar> \<le> \<eta> * \<bar>c\<bar>" and "0 \<le> \<epsilon>"
  shows "\<bar>a - (c::real)\<bar> \<le> (\<epsilon> + \<eta> + \<epsilon> * \<eta>) * \<bar>c\<bar>"
proof -
  have "\<bar>b\<bar> \<le> \<bar>c\<bar> + \<bar>b - c\<bar>"
    by simp
  with assms(2) have "\<bar>b\<bar> \<le> (1 + \<eta>) * \<bar>c\<bar>"
    by (simp add: algebra_simps)
  then have "\<epsilon> * \<bar>b\<bar> \<le> \<epsilon> * ((1 + \<eta>) * \<bar>c\<bar>)"
    using assms(3) by (rule mult_left_mono)
  with assms(1) have "\<bar>a - b\<bar> \<le> \<epsilon> * ((1 + \<eta>) * \<bar>c\<bar>)"
    by simp
  moreover have "\<bar>a - c\<bar> \<le> \<bar>a - b\<bar> + \<bar>b - c\<bar>"
    by simp
  ultimately have "\<bar>a - c\<bar> \<le> \<epsilon> * ((1 + \<eta>) * \<bar>c\<bar>) + \<eta> * \<bar>c\<bar>"
    using assms(2) by linarith
  then show ?thesis
    by (simp add: algebra_simps)
qed


subsection \<open>A zero initial price at the endpoints\<close>

lemma zero_initial_price_raises:
  "calc_price_return \<lparr>initial_price = 0, final_price = f\<rparr> = Inl ZeroDivisionError
   \<and> calc_dividend_yield \<lparr>dividend_total = d, div_initial_price = 0\<rparr> = Inl ZeroDivisionError"
  by (simp add: calc_price_return_def calc_dividend_yield_def)

section \<open>The claims\<close>

text \<open>
  C1. The session runs the calculation chain if and only if all six slots hold a value,
  a value of 0.0 included; otherwise it ends with the missing-data failure. The program
  tests the slots with \<open>all(required)\<close>, which takes 0.0 for false: when the six searches
  yield 100, 120, 200, 210, 0 and 3, every slot holds a value and the session still ends
  with the missing-data failure.
\<close>

theorem zero_dividend_reported_missing:
  "calls_loop quoting [search_for [''$100'', ''$120'', ''$200'', ''$210'', ''$0'', ''$3'']] no_metrics
     = Inr \<lparr>aapl_init = Some 100, aapl_final = Some 120, msft_init = Some 200,
            msft_final = Some 210, aapl_div = Some 0, msft_div = Some 3\<rparr>
   \<and> session quoting [search_for [''$100'', ''$120'', ''$200'', ''$210'', ''$0'', ''$3'']]
       = MissingData"
  by (simp add: run_defs)

text \<open>
  C2, as amended. For every name outside the tool registry and every argument value the
  dispatcher raises \<open>KeyError\<close> and returns nothing; a session whose first proposed call
  has such a name ends with that exception.
\<close>

theorem unknown_tool_raises_KeyError:
  "name \<notin> set (map fst tools) \<Longrightarrow>
     tool_handler w name arguments = Inl (KeyError name) \<and>
     session w (\<lparr>t_name = name, t_args = arguments\<rparr> # cs) = Raised (KeyError name)"
  by (simp add: tool_handler_def dispatch_def tools_def session_def)

theorem unknown_tool_raises_KeyError_witness:
  "''get_weather'' \<notin> set (map fst tools) \<and>
     tool_handler offline ''get_weather'' (JObj [(''city'', JStr ''Paris'')])
       = Inl (KeyError ''get_weather'') \<and>
     session offline [\<lparr>t_name = ''get_weather'', t_args = JObj [(''city'', JStr ''Paris'')]\<rparr>]
       = Raised (KeyError ''get_weather'')"
proof -
  have h: "''get_weather'' \<notin> set (map fst tools)"
    by (simp add: tools_def)
  from unknown_tool_raises_KeyError [OF h] h show ?thesis
    by blast
qed

text \<open>
  The claim as written, an error marker returned as data, fails: the call raises.
\<close>

theorem unknown_tool_counterexample:
  "tool_handler offline ''get_weather'' (JObj []) = Inl (KeyError ''get_weather'')"
  by (simp add: tool_handler_def dispatch_def)

text \<open>
  C3. An initial price observation of exactly zero is to end in a computation error of
  the price-return and dividend-yield steps, apart from the missing-data failure. The
  steps do abort on it: the endpoints raise a division-by-zero error, and a calculation
  chain entered with a zero initial price stops at its first step. The session never
  gets there: \<open>all(required)\<close> takes the zero for a missing slot, and the run ends with
  the missing-data failure.
\<close>

theorem zero_initial_price_reported_missing:
  "calls_loop quoting [search_for [''$0'', ''$120'', ''$200'', ''$210'', ''$2'', ''$3'']] no_metrics
     = Inr \<lparr>aapl_init = Some 0, aapl_final = Some 120, msft_init = Some 200,
            msft_final = Some 210, aapl_div = Some 2, msft_div = Some 3\<rparr>
   \<and> session quoting [search_for [''$0'', ''$120'', ''$200'', ''$210'', ''$2'', ''$3'']]
       = MissingData
   \<and> calculation_chain quoting
        \<lparr>aapl_init = Some 0, aapl_final = Some 120, msft_init = Some 200,
         msft_final = Some 210, aapl_div = Some 2, msft_div = Some 3\<rparr>
       = Inl (KeyError ''price_return'')"
proof -
  have "calculation_chain quoting
          \<lparr>aapl_init = Some 0, aapl_final = Some 120, msft_init = Some 200,
           msft_final = Some 210, aapl_div = Some 2, msft_div = Some 3\<rparr>
         = Inl (KeyError ''price_return'')"
    by (simp add: calculation_chain_def total_return_of_def step_def and_then_def py_val_def
        tool_handler_def dispatch_def quoting_def local_service_def number_field_def
        response_def error_payload_def calc_price_return_def)
  then show ?thesis
    by (simp add: run_defs)
qed

text \<open>
  C4, as amended. For all names and all returns \<open>x \<noteq> y\<close>, \<open>compare\<close> on \<open>(a, x, b, y)\<close> names
  \<open>a\<close> the winner if and only if \<open>compare\<close> on \<open>(b, y, a, x)\<close> does.
\<close>

theorem compare_winner_swap:
  "x \<noteq> y \<Longrightarrow>
     (compare_winner \<lparr>stock_a_name = a, stock_a_return = x, stock_b_name = b, stock_b_return = y\<rparr> = a
        \<longleftrightarrow>
      compare_winner \<lparr>stock_a_name = b, stock_a_return = y, stock_b_name = a, stock_b_return = x\<rparr> = a)"
  by (auto simp: compare_winner_def)

theorem compare_winner_swap_witness:
  "(22::real) \<noteq> 6.5 \<and>
     compare_winner \<lparr>stock_a_name = ''AAPL'', stock_a_return = 22,
                     stock_b_name = ''MSFT'', stock_b_return = 6.5\<rparr> = ''AAPL'' \<and>
     compare_winner \<lparr>stock_a_name = ''MSFT'', stock_a_return = 6.5,
                     stock_b_name = ''AAPL'', stock_b_return = 22\<rparr> = ''AAPL''"
proof -
  have h: "(22::real) \<noteq> 6.5"
    by simp
  have l: "compare_winner \<lparr>stock_a_name = ''AAPL'', stock_a_return = 22,
                          stock_b_name = ''MSFT'', stock_b_return = 6.5\<rparr> = ''AAPL''"
    by (simp add: compare_winner_def)
  from compare_winner_swap [OF h, of "''AAPL''" "''MSFT''"] l h show ?thesis
    by blast
qed

text \<open>On a tie each order names its second stock, so the two orders disagree.\<close>

theorem compare_tie_counterexample:
  "\<not> (compare_winner \<lparr>stock_a_name = ''AAPL'', stock_a_return = 1,
                        stock_b_name = ''MSFT'', stock_b_return = 1\<rparr> = ''AAPL''
        \<longleftrightarrow>
      compare_winner \<lparr>stock_a_name = ''MSFT'', stock_a_return = 1,
                       stock_b_name = ''AAPL'', stock_b_return = 1\<rparr> = ''AAPL'')"
  by (simp add: compare_winner_def)





text \<open>
  C7. Within one search call the value extracted at position 0 goes to the initial AAPL
  price, position 1 to the final AAPL price, 2 and 3 to the initial and final MSFT
  price, 4 to the AAPL dividends and 5 to the MSFT dividends; a position from 6 on
  changes no slot, and a position whose extraction found nothing makes its slot absent.
\<close>

theorem slots_by_position:
  "(map extract_price_or_dividend items = map Inr vals \<longrightarrow>
      items_loop 0 items m =
        Inr \<lparr>aapl_init = at_position vals 0 (aapl_init m),
             aapl_final = at_position vals 1 (aapl_final m),
             msft_init = at_position vals 2 (msft_init m),
             msft_final = at_position vals 3 (msft_final m),
             aapl_div = at_position vals 4 (aapl_div m),
             msft_div = at_position vals 5 (msft_div m)\<rparr>)
   \<and> (6 \<le> i \<longrightarrow> assign i val m = m)"
  by (simp add: items_loop_from placed_0 assign_def)

theorem slots_by_position_witness:
  "map extract_price_or_dividend
     (map (serpapi_search quoting \<circ> JStr)
        [''$100'', ''$120'', ''no price'', ''$210'', ''$2'', ''$3'', ''$7''])
     = map Inr [Some 100, Some 120, None, Some 210, Some 2, Some 3, Some 7]
   \<and> items_loop 0
       (map (serpapi_search quoting \<circ> JStr)
          [''$100'', ''$120'', ''no price'', ''$210'', ''$2'', ''$3'', ''$7''])
       no_metrics
      = Inr \<lparr>aapl_init = Some 100, aapl_final = Some 120, msft_init = None,
             msft_final = Some 210, aapl_div = Some 2, msft_div = Some 3\<rparr>
   \<and> (6::nat) \<le> 6
   \<and> assign 6 (Some 7) no_metrics = no_metrics"
proof -
  let ?items = "map (serpapi_search quoting \<circ> JStr)
                  [''$100'', ''$120'', ''no price'', ''$210'', ''$2'', ''$3'', ''$7'']"
  let ?vals = "[Some 100, Some 120, None, Some 210, Some 2, Some 3, Some (7::real)]"
  have h: "map extract_price_or_dividend ?items = map Inr ?vals"
    by (simp add: run_defs)
  have g: "(6::nat) \<le> 6"
    by simp
  from slots_by_position [of ?items ?vals no_metrics 6 "Some 7"] h g
  have "items_loop 0 ?items no_metrics =
          Inr \<lparr>aapl_init = at_position ?vals 0 (aapl_init no_metrics),
               aapl_final = at_position ?vals 1 (aapl_final no_metrics),
               msft_init = at_position ?vals 2 (msft_init no_metrics),
               msft_final = at_position ?vals 3 (msft_final no_metrics),
               aapl_div = at_position ?vals 4 (aapl_div no_metrics),
               msft_div = at_position ?vals 5 (msft_div no_metrics)\<rparr>"
    and "assign 6 (Some 7) no_metrics = no_metrics"
    by blast+
  with h show ?thesis
    by (simp add: at_position_def)
qed

text \<open>
  C8, as amended. For every pair of prices with a non-zero initial price the
  price-return endpoint returns (final - initial) / initial * 100 as binary64
  arithmetic computes it, each of the three operations rounding its result. When no
  operation overflows or underflows, the value returned, which the calculation step
  hands on, is within a relative error of \<open>2^-51\<close> of the exact quotient. It depends on
  the two prices of the request only, so this holds for each ticker on its own.
\<close>

theorem calc_price_return_tolerance:
  assumes "i \<noteq> 0"
    and "normal (f - i)" and "round64 (f - i) = Finite d"
    and "normal (d / i)" and "round64 (d / i) = Finite q"
    and "normal (q * 100)" and "round64 (q * 100) = Finite r"
  shows "calc_price_return \<lparr>initial_price = i, final_price = f\<rparr>
           = Inr [(''price_return'', Finite r)]
         \<and> step quoting ''calculate_price_return''
              (JObj [(''initial_price'', JNum i), (''final_price'', JNum f)]) ''price_return''
             = Inr (JNum r)
         \<and> \<bar>r - (f - i) / i * 100\<bar> \<le> \<bar>(f - i) / i * 100\<bar> / 2 ^ 51"
proof -
  define u :: real where "u = 1 / 2 ^ 53"
  have u: "0 \<le> u"
    by (simp add: u_def)
  have c: "calc_price_return \<lparr>initial_price = i, final_price = f\<rparr>
             = Inr [(''price_return'', Finite r)]"
    using assms by (simp add: calc_price_return_def fsub_def)
  then have s: "step quoting ''calculate_price_return''
                  (JObj [(''initial_price'', JNum i), (''final_price'', JNum f)]) ''price_return''
                 = Inr (JNum r)"
    by (simp add: step_def tool_handler_def dispatch_def quoting_def local_service_def
        number_field_def response_def)
  have e1: "\<bar>d - (f - i)\<bar> \<le> u * \<bar>f - i\<bar>"
    using round64_rel [OF assms(2) assms(3)] by (simp add: u_def)
  have e2: "\<bar>q - d / i\<bar> \<le> u * \<bar>d / i\<bar>"
    using round64_rel [OF assms(4) assms(5)] by (simp add: u_def)
  have e3: "\<bar>r - q * 100\<bar> \<le> u * \<bar>q * 100\<bar>"
    using round64_rel [OF assms(6) assms(7)] by (simp add: u_def)
  have s2: "\<bar>q * 100 - d / i * 100\<bar> \<le> u * \<bar>d / i * 100\<bar>"
  proof -
    have "q * 100 - d / i * 100 = (q - d / i) * 100"
      by (simp only: left_diff_distrib)
    then have "\<bar>q * 100 - d / i * 100\<bar> = \<bar>q - d / i\<bar> * \<bar>100\<bar>"
      by (simp only: abs_mult)
    also have "\<dots> \<le> u * \<bar>d / i\<bar> * \<bar>100\<bar>"
      using e2 by (intro mult_right_mono) simp_all
    also have "\<dots> = u * \<bar>d / i * 100\<bar>"
      by (simp only: abs_mult mult.assoc)
    finally show ?thesis .
  qed
  have s1: "\<bar>d / i * 100 - (f - i) / i * 100\<bar> \<le> u * \<bar>(f - i) / i * 100\<bar>"
  proof -
    have "d / i * 100 - (f - i) / i * 100 = (d - (f - i)) * (100 / i)"
      using assms(1) by (simp add: field_simps)
    then have "\<bar>d / i * 100 - (f - i) / i * 100\<bar> = \<bar>d - (f - i)\<bar> * \<bar>100 / i\<bar>"
      by (simp only: abs_mult)
    also have "\<dots> \<le> u * \<bar>f - i\<bar> * \<bar>100 / i\<bar>"
      using e1 by (intro mult_right_mono) simp_all
    also have "\<dots> = u * \<bar>(f - i) * (100 / i)\<bar>"
      by (simp only: abs_mult mult.assoc)
    also have "(f - i) * (100 / i) = (f - i) / i * 100"
      by simp
    finally show ?thesis .
  qed
  have "\<bar>r - d / i * 100\<bar> \<le> (u + u + u * u) * \<bar>d / i * 100\<bar>"
    using e3 s2 u by (rule rel_step)
  then have "\<bar>r - (f - i) / i * 100\<bar>
               \<le> (u + u + u * u + u + (u + u + u * u) * u) * \<bar>(f - i) / i * 100\<bar>"
    using s1 by (rule rel_step) (simp add: u)
  also have "\<dots> \<le> 1 / 2 ^ 51 * \<bar>(f - i) / i * 100\<bar>"
    by (intro mult_right_mono) (simp_all add: u_def)
  finally have "\<bar>r - (f - i) / i * 100\<bar> \<le> \<bar>(f - i) / i * 100\<bar> / 2 ^ 51"
    by simp
  with c s show ?thesis
    by simp
qed

theorem calc_price_return_tolerance_witness:
  "(3::real) \<noteq> 0
   \<and> normal (4 - 3) \<and> round64 (4 - 3) = Finite 1
   \<and> normal (1 / 3) \<and> round64 (1 / 3) = Finite (6004799503160661 / 18014398509481984)
   \<and> normal (6004799503160661 / 18014398509481984 * 100)
   \<and> round64 (6004799503160661 / 18014398509481984 * 100)
       = Finite (2345624805922133 / 70368744177664)
   \<and> calc_price_return \<lparr>initial_price = 3, final_price = 4\<rparr>
       = Inr [(''price_return'', Finite (2345624805922133 / 70368744177664))]
   \<and> step quoting ''calculate_price_return''
        (JObj [(''initial_price'', JNum 3), (''final_price'', JNum 4)]) ''price_return''
       = Inr (JNum (2345624805922133 / 70368744177664))
   \<and> \<bar>2345624805922133 / 70368744177664 - (4 - 3) / 3 * 100\<bar>
       \<le> \<bar>(4 - 3) / 3 * (100::real)\<bar> / 2 ^ 51"
proof -
  have h0: "(3::real) \<noteq> 0"
    by simp
  have n1: "normal (4 - 3)" and n2: "normal (1 / 3)"
    and n3: "normal (6004799503160661 / 18014398509481984 * 100)"
    by (simp_all add: normal_def pow2_def)
  have r1: "round64 (4 - 3) = Finite 1"
    by (simp add: round64_def pow2_def round_half_even_def expo.simps)
  have r2: "round64 (1 / 3) = Finite (6004799503160661 / 18014398509481984)"
    by (simp add: round64_def pow2_def round_half_even_def expo.simps)
  have r3: "round64 (6004799503160661 / 18014398509481984 * 100)
              = Finite (2345624805922133 / 70368744177664)"
    by (simp add: round64_def pow2_def round_half_even_def expo.simps)
  from calc_price_return_tolerance [OF h0 n1 r1 n2 r2 n3 r3] h0 n1 r1 n2 r2 n3 r3
  show ?thesis
    by (intro conjI) (rule h0 n1 r1 n2 r2 n3 r3, blast+)
qed

text \<open>
  The claim as written, the exact value, fails: for the prices 3 and 4 the endpoint
  returns the double 33.33333333333333, which is neither 100 / 3 nor the double
  nearest to it, 33.333333333333336.
\<close>

theorem calc_price_return_counterexample:
  "calc_price_return \<lparr>initial_price = 3, final_price = 4\<rparr>
     = Inr [(''price_return'', Finite (2345624805922133 / 70368744177664))]
   \<and> (2345624805922133 / 70368744177664 :: real) \<noteq> (4 - 3) / 3 * 100
   \<and> round64 ((4 - 3) / 3 * 100) = Finite (4691249611844267 / 140737488355328)
   \<and> (2345624805922133 / 70368744177664 :: real) \<noteq> 4691249611844267 / 140737488355328"
  by (simp add: calc_price_return_def fsub_def round64_def pow2_def round_half_even_def
      expo.simps)




text \<open>
  C10, as amended. With several search calls a slot depends on positions only: in a run
  that raises nothing each slot ends with what was extracted, a number or absent, at its
  position in the last search call whose result list has that position, and stays as it
  was when no call has one. An absent value of a later call erases the number an earlier
  call put there.
\<close>

theorem later_call_overwrites:
  "calls_loop w calls m = Inr m' \<Longrightarrow>
   m' = \<lparr>aapl_init = latest 0 (observations w calls) (aapl_init m),
         aapl_final = latest 1 (observations w calls) (aapl_final m),
         msft_init = latest 2 (observations w calls) (msft_init m),
         msft_final = latest 3 (observations w calls) (msft_final m),
         aapl_div = latest 4 (observations w calls) (aapl_div m),
         msft_div = latest 5 (observations w calls) (msft_div m)\<rparr>"
proof (induction calls arbitrary: m)
  case Nil
  then show ?case by (simp add: observations_def latest_Nil)
next
  case (Cons c cs)
  from Cons.prems obtain result where r: "tool_handler w (t_name c) (t_args c) = Inr result"
    by (auto split: sum.splits)
  show ?case
  proof (cases "t_name c = ''search_stock_data''")
    case True
    from Cons.prems r True obtain items m1 where
      it: "py_iter result = Inr items" and
      l: "items_loop 0 items m = Inr m1" and
      rest: "calls_loop w cs m1 = Inr m'"
      by (auto split: sum.splits)
    have "search_results w c = items"
      by (simp add: search_results_def r it)
    then have obs: "observations w (c # cs) = map observed items # observations w cs"
      by (simp add: observations_def True)
    show ?thesis
      using Cons.IH [OF rest] items_loop_result [OF l]
      by (simp add: obs latest_Cons)
  next
    case False
    with Cons.prems r have rest: "calls_loop w cs m = Inr m'"
      by simp
    have obs: "observations w (c # cs) = observations w cs"
      by (simp add: observations_def False)
    show ?thesis
      using Cons.IH [OF rest] by (simp add: obs)
  qed
qed


theorem later_call_overwrites_witness:
  "calls_loop quoting
     [search_for [''$100'', ''$120'', ''$200'', ''$210'', ''$2'', ''$3''],
      \<lparr>t_name = ''calculate_total_return'', t_args = JObj []\<rparr>,
      search_for [''$101'', ''no price'']]
     no_metrics
     = Inr \<lparr>aapl_init = Some 101, aapl_final = None, msft_init = Some 200,
            msft_final = Some 210, aapl_div = Some 2, msft_div = Some 3\<rparr>
   \<and> \<lparr>aapl_init = Some 101, aapl_final = None, msft_init = Some 200,
       msft_final = Some 210, aapl_div = Some 2, msft_div = Some 3\<rparr>
     = \<lparr>aapl_init =
          latest 0
            (observations quoting
               [search_for [''$100'', ''$120'', ''$200'', ''$210'', ''$2'', ''$3''],
                \<lparr>t_name = ''calculate_total_return'', t_args = JObj []\<rparr>,
                search_for [''$101'', ''no price'']])
            (aapl_init no_metrics),
        aapl_final =
          latest 1
            (observations quoting
               [search_for [''$100'', ''$120'', ''$200'', ''$210'', ''$2'', ''$3''],
                \<lparr>t_name = ''calculate_total_return'', t_args = JObj []\<rparr>,
                search_for [''$101'', ''no price'']])
            (aapl_final no_metrics),
        msft_init =
          latest 2
            (observations quoting
               [search_for [''$100'', ''$120'', ''$200'', ''$210'', ''$2'', ''$3''],
                \<lparr>t_name = ''calculate_total_return'', t_args = JObj []\<rparr>,
                search_for [''$101'', ''no price'']])
            (msft_init no_metrics),
        msft_final =
          latest 3
            (observations quoting
               [search_for [''$100'', ''$120'', ''$200'', ''$210'', ''$2'', ''$3''],
                \<lparr>t_name = ''calculate_total_return'', t_args = JObj []\<rparr>,
                search_for [''$101'', ''no price'']])
            (msft_final no_metrics),
        aapl_div =
          latest 4
            (observations quoting
               [search_for [''$100'', ''$120'', ''$200'', ''$210'', ''$2'', ''$3''],
                \<lparr>t_name = ''calculate_total_return'', t_args = JObj []\<rparr>,
                search_for [''$101'', ''no price'']])
            (aapl_div no_metrics),
        msft_div =
          latest 5
            (observations quoting
               [search_for [''$100'', ''$120'', ''$200'', ''$210'', ''$2'', ''$3''],
                \<lparr>t_name = ''calculate_total_return'', t_args = JObj []\<rparr>,
                search_for [''$101'', ''no price'']])
            (msft_div no_metrics)\<rparr>"
proof -
  let ?calls = "[search_for [''$100'', ''$120'', ''$200'', ''$210'', ''$2'', ''$3''],
                 \<lparr>t_name = ''calculate_total_return'', t_args = JObj []\<rparr>,
                 search_for [''$101'', ''no price'']]"
  let ?m = "\<lparr>aapl_init = Some 101, aapl_final = None, msft_init = Some 200,
              msft_final = Some 210, aapl_div = Some 2, msft_div = Some (3::real)\<rparr>"
  have h: "calls_loop quoting ?calls no_metrics = Inr ?m"
    by (simp add: run_defs)
  from h later_call_overwrites [OF h] show ?thesis
    by (rule conjI)
qed

text \<open>
  The claim as written fails: the first call extracts 100 at position 0, the second
  call nothing, and the initial AAPL price ends absent instead of 100.
\<close>

theorem absent_overwrites_counterexample:
  "observations quoting
     [search_for [''$100'', ''$120'', ''$200'', ''$210'', ''$2'', ''$3''],
      search_for [''no price'']]
     = [[Some 100, Some 120, Some 200, Some 210, Some 2, Some 3], [None]]
   \<and> calls_loop quoting
       [search_for [''$100'', ''$120'', ''$200'', ''$210'', ''$2'', ''$3''],
        search_for [''no price'']]
       no_metrics
      = Inr \<lparr>aapl_init = None, aapl_final = Some 120, msft_init = Some 200,
             msft_final = Some 210, aapl_div = Some 2, msft_div = Some 3\<rparr>"
  by (simp add: run_defs observations_def search_results_def observed_def)

end
